theory Spec2Isabelle
  imports Main
begin

section \<open>Python values\<close>

text \<open>
  The values that flow through \<^verbatim>\<open>module_utils/k8s/raw.py\<close>: parsed YAML/JSON
  documents, module parameters and the dictionaries returned by \<^verbatim>\<open>to_dict()\<close>.
  A Python dict is an association list in insertion order; lookups take the first
  entry of a key, so a list with unique keys is exactly a dict. Numbers are integers.
\<close>

datatype json =
    JNull
  | JBool bool
  | JInt int
  | JStr string
  | JList "json list"
  | JDict "(string \<times> json) list"

type_synonym dict = "(string \<times> json) list"

text \<open>\<^verbatim>\<open>d.get(k)\<close>: the value, or None.\<close>

definition dict_get :: "dict \<Rightarrow> string \<Rightarrow> json" where
  "dict_get d k = (case map_of d k of None \<Rightarrow> JNull | Some v \<Rightarrow> v)"

text \<open>\<^verbatim>\<open>d.get(k, default)\<close> and \<^verbatim>\<open>d.pop(k, default)\<close> (the value part).\<close>

definition dict_get_default :: "dict \<Rightarrow> string \<Rightarrow> json \<Rightarrow> json" where
  "dict_get_default d k dflt = (case map_of d k of None \<Rightarrow> dflt | Some v \<Rightarrow> v)"

text \<open>\<^verbatim>\<open>d[k]\<close> and \<^verbatim>\<open>d.pop(k)\<close> raise KeyError on a missing key.\<close>

datatype ApiException = ApiException (status: int) (body: string)

datatype pyerror =
    KeyError string
  | AttributeError
  | TypeError
  | UnboundLocalError string
  | Uncaught ApiException

definition dict_index :: "dict \<Rightarrow> string \<Rightarrow> pyerror + json" where
  "dict_index d k = (case map_of d k of None \<Rightarrow> Inl (KeyError k) | Some v \<Rightarrow> Inr v)"

text \<open>The dict that is left after \<^verbatim>\<open>d.pop(k, ...)\<close>.\<close>

definition dict_remove :: "string \<Rightarrow> dict \<Rightarrow> dict" where
  "dict_remove k d = filter (\<lambda>kv. fst kv \<noteq> k) d"

text \<open>\<^verbatim>\<open>d[k] = v\<close>: overwrite in place, or append a new key.\<close>

fun dict_set :: "string \<Rightarrow> json \<Rightarrow> dict \<Rightarrow> dict" where
  "dict_set k v [] = [(k, v)]"
| "dict_set k v ((k', v') # d) = (if k' = k then (k, v) # d else (k', v') # dict_set k v d)"

text \<open>\<^verbatim>\<open>d.keys()\<close>, each key once, in insertion order.\<close>

definition dict_keys :: "dict \<Rightarrow> string list" where
  "dict_keys d = remdups (map fst d)"

text \<open>Truth value of a Python object, as \<^verbatim>\<open>not x\<close>, \<^verbatim>\<open>x or y\<close> and \<^verbatim>\<open>if x\<close> use it.\<close>

fun truthy :: "json \<Rightarrow> bool" where
  "truthy JNull = False"
| "truthy (JBool b) = b"
| "truthy (JInt i) = (i \<noteq> 0)"
| "truthy (JStr s) = (s \<noteq> [])"
| "truthy (JList xs) = (xs \<noteq> [])"
| "truthy (JDict d) = (d \<noteq> [])"

definition py_or :: "json \<Rightarrow> json \<Rightarrow> json" where
  "py_or a b = (if truthy a then a else b)"

text \<open>\<^verbatim>\<open>s.endswith(t)\<close>.\<close>

definition endswith :: "string \<Rightarrow> string \<Rightarrow> bool" where
  "endswith s t = (length t \<le> length s \<and> drop (length s - length t) s = t)"

section \<open>Structural diff\<close>

text \<open>
  Modelled from the spec: \<^verbatim>\<open>dictdiffer.diff\<close>, the library function that
  \<^verbatim>\<open>perform_action\<close> calls at line 153; its code is not part of the repository.
  The spec describes it as a deep structural diff (added, removed and changed paths,
  recursively, across nested mappings and sequences), with index-based comparison of
  sequences and every type mismatch counted as a difference.
\<close>

datatype path_key = Key string | Index nat

datatype diff_entry =
    Change "path_key list" json json
  | Add "path_key list" "(path_key \<times> json) list"
  | Remove "path_key list" "(path_key \<times> json) list"

lemma size_map_of_less:
  "map_of d k = Some v \<Longrightarrow> size v < Suc (size_list (size_prod (\<lambda>_. 0) size) d)"
  by (induction d) (auto split: if_splits)

lemma size_nth_less: "i < length xs \<Longrightarrow> size (xs ! i) < Suc (size_list size xs)"
proof (induction xs arbitrary: i)
  case Nil
  then show ?case by simp
next
  case (Cons a xs)
  show ?case
  proof (cases i)
    case 0
    then show ?thesis by simp
  next
    case (Suc j)
    with Cons.prems have "j < length xs" by simp
    from Cons.IH [OF this] Suc show ?thesis by simp
  qed
qed

function diff_at :: "path_key list \<Rightarrow> json \<Rightarrow> json \<Rightarrow> diff_entry list" where
  "diff_at node (JDict first) (JDict second) =
     (let intersection = filter (\<lambda>k. map_of second k \<noteq> None) (dict_keys first);
          addition = filter (\<lambda>k. map_of first k = None) (dict_keys second);
          deletion = filter (\<lambda>k. map_of second k = None) (dict_keys first)
      in concat (map (\<lambda>k. case (map_of first k, map_of second k) of
                             (Some v, Some w) \<Rightarrow> diff_at (node @ [Key k]) v w
                           | _ \<Rightarrow> []) intersection)
         @ (if addition \<noteq> [] then [Add node (map (\<lambda>k. (Key k, dict_get second k)) addition)] else [])
         @ (if deletion \<noteq> [] then [Remove node (map (\<lambda>k. (Key k, dict_get first k)) deletion)] else []))"
| "diff_at node (JList first) (JList second) =
     (let len_first = length first; len_second = length second;
          intersection = [0 ..< min len_first len_second];
          addition = [min len_first len_second ..< len_second];
          deletion = rev [min len_first len_second ..< len_first]
      in concat (map (\<lambda>i. if i < len_first \<and> i < len_second
                           then diff_at (node @ [Index i]) (first ! i) (second ! i) else []) intersection)
         @ (if addition \<noteq> [] then [Add node (map (\<lambda>i. (Index i, second ! i)) addition)] else [])
         @ (if deletion \<noteq> [] then [Remove node (map (\<lambda>i. (Index i, first ! i)) deletion)] else []))"
| "diff_at node JNull second = (if JNull \<noteq> second then [Change node JNull second] else [])"
| "diff_at node (JBool b) second = (if JBool b \<noteq> second then [Change node (JBool b) second] else [])"
| "diff_at node (JInt i) second = (if JInt i \<noteq> second then [Change node (JInt i) second] else [])"
| "diff_at node (JStr s) second = (if JStr s \<noteq> second then [Change node (JStr s) second] else [])"
| "diff_at node (JDict first) JNull = [Change node (JDict first) JNull]"
| "diff_at node (JDict first) (JBool b) = [Change node (JDict first) (JBool b)]"
| "diff_at node (JDict first) (JInt i) = [Change node (JDict first) (JInt i)]"
| "diff_at node (JDict first) (JStr s) = [Change node (JDict first) (JStr s)]"
| "diff_at node (JDict first) (JList second) = [Change node (JDict first) (JList second)]"
| "diff_at node (JList first) JNull = [Change node (JList first) JNull]"
| "diff_at node (JList first) (JBool b) = [Change node (JList first) (JBool b)]"
| "diff_at node (JList first) (JInt i) = [Change node (JList first) (JInt i)]"
| "diff_at node (JList first) (JStr s) = [Change node (JList first) (JStr s)]"
| "diff_at node (JList first) (JDict second) = [Change node (JList first) (JDict second)]"
  by pat_completeness auto
termination
  by (relation "measure (\<lambda>(node, first, second). size first)")
     (auto simp: size_map_of_less size_nth_less)

definition diff :: "json \<Rightarrow> json \<Rightarrow> diff_entry list" where
  "diff first second = diff_at [] first second"


section \<open>Cluster, module and reports\<close>

text \<open>
  An object returned by the API client; only its \<^verbatim>\<open>to_dict()\<close> is used. Such an
  object is always true in a boolean context.
\<close>

datatype k8s_obj = K8sObj (to_dict: dict)

text \<open>
  The endpoint handle that \<^verbatim>\<open>search_resources\<close> yields: its identification and
  its six operations. Each operation either returns an object or raises
  \<^verbatim>\<open>ApiException\<close>; how the cluster answers is not decided by this module, so the
  answers are functions of the call's arguments.
\<close>

record resource =
  kind :: string
  group :: string
  apiversion :: string
  r_list :: "json \<Rightarrow> ApiException + k8s_obj"
  r_get :: "json \<Rightarrow> json \<Rightarrow> ApiException + k8s_obj"
  r_delete :: "json \<Rightarrow> json \<Rightarrow> ApiException + k8s_obj"
  r_create :: "dict \<Rightarrow> json \<Rightarrow> ApiException + k8s_obj"
  r_replace :: "dict \<Rightarrow> json \<Rightarrow> json \<Rightarrow> ApiException + k8s_obj"
  r_update :: "dict \<Rightarrow> json \<Rightarrow> json \<Rightarrow> ApiException + k8s_obj"

record client =
  search_resources :: "(resource \<Rightarrow> bool) \<Rightarrow> pyerror + resource"

text \<open>The calls issued to the cluster, in order.\<close>

datatype call =
    ListCall json
  | GetCall json json
  | DeleteCall json json
  | CreateCall dict json
  | ReplaceCall dict json json
  | UpdateCall dict json json

fun mutating :: "call \<Rightarrow> bool" where
  "mutating (ListCall namespace) = False"
| "mutating (GetCall name namespace) = False"
| "mutating (DeleteCall name namespace) = True"
| "mutating (CreateCall definition namespace) = True"
| "mutating (ReplaceCall definition name namespace) = True"
| "mutating (UpdateCall definition name namespace) = True"

text \<open>
  How a piece of the module ends: it returns to its caller, it ends the process with
  \<^verbatim>\<open>exit_json(changed=..., result=...)\<close> or \<^verbatim>\<open>fail_json(msg=..., error=...)\<close>
  (both exit the interpreter), or an exception leaves it uncaught.
\<close>

datatype msg = MsgStr string | MsgTuple "string list"

datatype 'a outcome =
    Return 'a
  | ExitJson bool dict
  | FailJson msg "int option"
  | Raise pyerror

record raw_module =
  module_kind :: json
  module_api_version :: json
  resource_definition :: json
  src :: json
  resource_definitions :: "dict list option"
  params :: dict
  check_mode :: bool
  remove_aliases :: "dict \<Rightarrow> dict"

section \<open>KubernetesRawModule.__init__\<close>

text \<open>
  Lines 49--71. \<^verbatim>\<open>params0\<close> is \<^verbatim>\<open>self.params\<close> as the base class leaves it;
  \<^verbatim>\<open>load_resource_definitions\<close> (inherited, reads a local file) is a parameter.
  An attribute that was never assigned is \<open>None\<close> in \<open>resource_definitions\<close>.
\<close>

definition init ::
  "dict \<Rightarrow> bool \<Rightarrow> (dict \<Rightarrow> dict) \<Rightarrow> (json \<Rightarrow> dict list outcome) \<Rightarrow> call list \<times> raw_module outcome"
where
  "init params0 check aliases load_resource_definitions =
     (case dict_index params0 ''kind'' of Inl e \<Rightarrow> ([], Raise e) | Inr kind0 \<Rightarrow>
      (let params1 = dict_remove ''kind'' params0 in
       case dict_index params1 ''api_version'' of Inl e \<Rightarrow> ([], Raise e) | Inr api_version0 \<Rightarrow>
       (let params2 = dict_remove ''api_version'' params1 in
        case dict_index params2 ''resource_definition'' of Inl e \<Rightarrow> ([], Raise e) | Inr rd \<Rightarrow>
        (let params3 = dict_remove ''resource_definition'' params2 in
         case dict_index params3 ''src'' of Inl e \<Rightarrow> ([], Raise e) | Inr source \<Rightarrow>
         (let params4 = dict_remove ''src'' params3 in
          case (if truthy source then load_resource_definitions source else Return []) of
            ExitJson c r \<Rightarrow> ([], ExitJson c r)
          | FailJson m e \<Rightarrow> ([], FailJson m e)
          | Raise e \<Rightarrow> ([], Raise e)
          | Return loaded \<Rightarrow>
             (let self = \<lparr> module_kind = kind0, module_api_version = api_version0,
                           resource_definition = rd, src = source,
                           resource_definitions = (if truthy source then Some loaded else None),
                           params = params4, check_mode = check, remove_aliases = aliases \<rparr>
              in case rd of
                   JDict inline \<Rightarrow>
                     (let api_version = (if inline \<noteq> [] then dict_get inline ''apiVersion'' else api_version0);
                          knd = (if inline \<noteq> [] then dict_get inline ''kind'' else kind0)
                      in if \<not> truthy api_version then
                           ([], FailJson (MsgTuple
                              [''Error: no api_version specified. Use the api_version parameter, or provide it as part of a '',
                               ''resource_definition.'']) None)
                         else if \<not> truthy knd then
                           ([], FailJson (MsgStr
                              ''Error: no kind specified. Use the kind parameter, or provide it as part of a resource_definition'') None)
                         else ([], Return (self\<lparr> module_api_version := api_version, module_kind := knd,
                                                 resource_definitions := Some [inline] \<rparr>)))
                 | _ \<Rightarrow> ([], Return self)))))))"

section \<open>exact_match and execute_module\<close>

text \<open>
  Lines 79--85: the predicate that \<^verbatim>\<open>exact_match(definition)\<close> returns.
  \<^verbatim>\<open>'/'.join([group, apiversion])\<close> is the group, a slash, the version.
\<close>

definition exact_match :: "dict \<Rightarrow> resource \<Rightarrow> bool" where
  "exact_match definition rsc =
     (JStr (kind rsc) = dict_get definition ''kind'' \<and>
      JStr (group rsc @ ''/'' @ apiversion rsc) = dict_get definition ''apiVersion'')"

text \<open>
  \<^verbatim>\<open>exact_match\<close> is declared in the class body as \<^verbatim>\<open>def exact_match(definition)\<close>:
  one positional parameter, no \<^verbatim>\<open>self\<close>, no \<^verbatim>\<open>staticmethod\<close>. A call through the
  instance passes the instance first, so a function declared with \<open>declared\<close>
  parameters accepts \<open>given\<close> explicit arguments only when \<open>declared = given + 1\<close>;
  otherwise Python raises TypeError before the body runs.
\<close>

definition exact_match_params :: nat where
  "exact_match_params = 1"

definition call_bound :: "nat \<Rightarrow> nat \<Rightarrow> 'f \<Rightarrow> pyerror + 'f" where
  "call_bound declared given f = (if declared = Suc given then Inr f else Inl TypeError)"

section \<open>perform_action\<close>

text \<open>
  Lines 97--98: \<^verbatim>\<open>definition.get('metadata', {}).get(k)\<close>. A \<^verbatim>\<open>metadata\<close> entry
  that is not a mapping has no \<^verbatim>\<open>get\<close>.
\<close>

definition metadata_get :: "dict \<Rightarrow> string \<Rightarrow> pyerror + json" where
  "metadata_get definition k =
     (case dict_get_default definition ''metadata'' (JDict []) of
        JDict metadata \<Rightarrow> Inr (dict_get metadata k)
      | _ \<Rightarrow> Inl AttributeError)"

text \<open>Line 104: \<^verbatim>\<open>definition['kind'].endswith(suffix)\<close>.\<close>

definition kind_endswith :: "dict \<Rightarrow> string \<Rightarrow> pyerror + bool" where
  "kind_endswith definition suffix =
     (case dict_index definition ''kind'' of
        Inl e \<Rightarrow> Inl e
      | Inr (JStr s) \<Rightarrow> Inr (endswith s suffix)
      | Inr _ \<Rightarrow> Inl AttributeError)"

text \<open>
  Reading a local variable: a name that no executed statement has assigned is
  \<open>None\<close> here, and reading it raises UnboundLocalError.
\<close>

definition read_local :: "string \<Rightarrow> 'a option \<Rightarrow> pyerror + 'a" where
  "read_local var v = (case v of None \<Rightarrow> Inl (UnboundLocalError var) | Some x \<Rightarrow> Inr x)"

text \<open>Lines 104--107, once the kind test has succeeded.\<close>

definition list_objects :: "resource \<Rightarrow> json \<Rightarrow> call list \<times> raw_module outcome" where
  "list_objects rsc namespace =
     (case r_list rsc namespace of
        Inl exc \<Rightarrow> ([ListCall namespace], Raise (Uncaught exc))
      | Inr k8s_obj \<Rightarrow> ([ListCall namespace], ExitJson False (to_dict k8s_obj)))"

text \<open>Lines 121--129: \<^verbatim>\<open>state == 'absent'\<close> and the object exists.\<close>

definition delete_object ::
  "raw_module \<Rightarrow> resource \<Rightarrow> json \<Rightarrow> json \<Rightarrow> call list \<times> raw_module outcome" where
  "delete_object self rsc name namespace =
     (if \<not> check_mode self then
        (case r_delete rsc name namespace of
           Inl exc \<Rightarrow> ([DeleteCall name namespace],
                        FailJson (MsgStr (''Failed to delete object: '' @ body exc)) (Some (status exc)))
         | Inr _ \<Rightarrow> ([DeleteCall name namespace], ExitJson True []))
      else ([], ExitJson True []))"

text \<open>Lines 131--136: the object does not exist and the state is not \<^verbatim>\<open>absent\<close>.\<close>

definition create_object ::
  "raw_module \<Rightarrow> resource \<Rightarrow> dict \<Rightarrow> json \<Rightarrow> call list \<times> raw_module outcome" where
  "create_object self rsc definition namespace =
     (if \<not> check_mode self then
        (case r_create rsc definition namespace of
           Inl exc \<Rightarrow> ([CreateCall definition namespace], Raise (Uncaught exc))
         | Inr k8s_obj \<Rightarrow> ([CreateCall definition namespace], ExitJson True (to_dict k8s_obj)))
      else ([], ExitJson True []))"

text \<open>
  Lines 138--147: the object exists and \<^verbatim>\<open>force\<close> is true. \<^verbatim>\<open>k8s_obj\<close> is assigned
  only by the replace call; line 145 reads it in either mode.
\<close>

definition replace_object ::
  "raw_module \<Rightarrow> resource \<Rightarrow> dict \<Rightarrow> json \<Rightarrow> json \<Rightarrow> call list \<times> raw_module outcome" where
  "replace_object self rsc definition name namespace =
     (if \<not> check_mode self then
        (case r_replace rsc definition name namespace of
           Inl exc \<Rightarrow> ([ReplaceCall definition name namespace],
                        FailJson (MsgStr (''Failed to replace object: '' @ body exc)) (Some (status exc)))
         | Inr obj \<Rightarrow>
             (case read_local ''k8s_obj'' (Some obj) of
                Inl e \<Rightarrow> ([ReplaceCall definition name namespace], Raise e)
              | Inr k8s_obj \<Rightarrow> ([ReplaceCall definition name namespace], ExitJson True (to_dict k8s_obj))))
      else
        (case read_local ''k8s_obj'' None of
           Inl e \<Rightarrow> ([], Raise e)
         | Inr k8s_obj \<Rightarrow> ([], ExitJson True (to_dict k8s_obj))))"

text \<open>Lines 149--154: the comparison of the definition with the existing object.\<close>

definition shared_attrs :: "dict \<Rightarrow> dict \<Rightarrow> dict" where
  "shared_attrs definition existing_attrs =
     fold (\<lambda>k shared. dict_set k (dict_get existing_attrs k) shared) (dict_keys definition) []"

definition matches :: "dict \<Rightarrow> dict \<Rightarrow> bool" where
  "matches definition existing_attrs =
     (let diffs = diff (JDict definition) (JDict (shared_attrs definition existing_attrs))
      in length diffs = 0)"

text \<open>Lines 149--167: the object exists and \<^verbatim>\<open>force\<close> is false.\<close>

definition update_object ::
  "raw_module \<Rightarrow> resource \<Rightarrow> dict \<Rightarrow> json \<Rightarrow> json \<Rightarrow> k8s_obj \<Rightarrow> call list \<times> raw_module outcome" where
  "update_object self rsc definition name namespace existing =
     (let existing_attrs = to_dict existing in
      if matches definition existing_attrs then ([], ExitJson False existing_attrs)
      else if \<not> check_mode self then
        (case r_update rsc definition name namespace of
           Inl exc \<Rightarrow> ([UpdateCall definition name namespace],
                        FailJson (MsgStr (''Failed to patch object: '' @ body exc)) None)
         | Inr obj \<Rightarrow>
             (case read_local ''k8s_obj'' (Some obj) of
                Inl e \<Rightarrow> ([UpdateCall definition name namespace], Raise e)
              | Inr k8s_obj \<Rightarrow> ([UpdateCall definition name namespace], ExitJson True (to_dict k8s_obj))))
      else
        (case read_local ''k8s_obj'' None of
           Inl e \<Rightarrow> ([], Raise e)
         | Inr k8s_obj \<Rightarrow> ([], ExitJson True (to_dict k8s_obj))))"

text \<open>Lines 116--167, with \<^verbatim>\<open>existing\<close> as line 110 left it (\<open>None\<close> after a 404).\<close>

definition reconcile ::
  "raw_module \<Rightarrow> resource \<Rightarrow> dict \<Rightarrow> json \<Rightarrow> json \<Rightarrow> json \<Rightarrow> json \<Rightarrow> k8s_obj option
     \<Rightarrow> call list \<times> raw_module outcome" where
  "reconcile self rsc definition state force name namespace existing =
     (if state = JStr ''absent'' then
        (case existing of
           None \<Rightarrow> ([], ExitJson False [])
         | Some _ \<Rightarrow> delete_object self rsc name namespace)
      else
        (case existing of
           None \<Rightarrow> create_object self rsc definition namespace
         | Some obj \<Rightarrow>
             if truthy force then replace_object self rsc definition name namespace
             else update_object self rsc definition name namespace obj))"

text \<open>Lines 93--167.\<close>

definition perform_action :: "raw_module \<Rightarrow> resource \<Rightarrow> dict \<Rightarrow> call list \<times> raw_module outcome" where
  "perform_action self rsc definition =
     (let state = dict_get (params self) ''state'';
          params1 = dict_remove ''state'' (params self);
          force = dict_get_default params1 ''force'' (JBool False);
          params2 = dict_remove ''force'' params1
      in case metadata_get definition ''name'' of Inl e \<Rightarrow> ([], Raise e) | Inr n \<Rightarrow>
         (case metadata_get definition ''namespace'' of Inl e \<Rightarrow> ([], Raise e) | Inr ns \<Rightarrow>
          (let name = py_or n (dict_get params2 ''name'');
               namespace = py_or ns (dict_get params2 ''namespace'');
               params3 = remove_aliases self params2
           in case kind_endswith definition ''list'' of
                Inl e \<Rightarrow> ([], Raise e)
              | Inr True \<Rightarrow> list_objects rsc (dict_get params3 ''namespace'')
              | Inr False \<Rightarrow>
                  (case r_get rsc name namespace of
                     Inl exc \<Rightarrow>
                       if status exc \<noteq> 404 then
                         ([GetCall name namespace],
                          FailJson (MsgStr (''Failed to retrieve requested object: '' @ body exc))
                                   (Some (status exc)))
                       else
                         (case reconcile self rsc definition state force name namespace None of
                            (calls, r) \<Rightarrow> (GetCall name namespace # calls, r))
                   | Inr obj \<Rightarrow>
                       (case reconcile self rsc definition state force name namespace (Some obj) of
                          (calls, r) \<Rightarrow> (GetCall name namespace # calls, r))))))"

section \<open>execute_module\<close>

text \<open>
  Lines 89--91: the loop over the definitions. The next definition is reached only
  when the body returns; any other outcome ends the run.
\<close>

fun for_definitions ::
  "(raw_module \<Rightarrow> dict \<Rightarrow> call list \<times> raw_module outcome) \<Rightarrow> raw_module \<Rightarrow> dict list
     \<Rightarrow> call list \<times> raw_module outcome" where
  "for_definitions loop_body self [] = ([], Return self)"
| "for_definitions loop_body self (definition # rest) =
     (case loop_body self definition of
        (calls, Return self') \<Rightarrow>
          (case for_definitions loop_body self' rest of (calls', r) \<Rightarrow> (calls @ calls', r))
      | (calls, ExitJson c r) \<Rightarrow> (calls, ExitJson c r)
      | (calls, FailJson m e) \<Rightarrow> (calls, FailJson m e)
      | (calls, Raise e) \<Rightarrow> (calls, Raise e))"

text \<open>Lines 90--91, for one definition.\<close>

definition resolve_and_perform :: "client \<Rightarrow> raw_module \<Rightarrow> dict \<Rightarrow> call list \<times> raw_module outcome" where
  "resolve_and_perform cl self definition =
     (case call_bound exact_match_params 1 (exact_match definition) of
        Inl e \<Rightarrow> ([], Raise e)
      | Inr predicate \<Rightarrow>
          (case search_resources cl predicate of
             Inl e \<Rightarrow> ([], Raise e)
           | Inr rsc \<Rightarrow> perform_action self rsc definition))"

text \<open>
  Lines 87--91. \<open>cl\<close> is the client that \<^verbatim>\<open>get_api_client()\<close> returned; reading
  \<^verbatim>\<open>self.resource_definitions\<close> when \<^verbatim>\<open>__init__\<close> never assigned it raises
  AttributeError.
\<close>

definition execute_module :: "raw_module \<Rightarrow> client \<Rightarrow> call list \<times> raw_module outcome" where
  "execute_module self cl =
     (case resource_definitions self of
        None \<Rightarrow> ([], Raise AttributeError)
      | Some definitions \<Rightarrow> for_definitions (resolve_and_perform cl) self definitions)"

section \<open>Example inputs\<close>

text \<open>
  The ConfigMap of the specification's scenarios and variants of it, a resource handle
  whose operations give fixed answers, a module instance with given parameters and
  check mode, a client that knows a list of endpoints, and module parameters with an
  inline definition.
\<close>

definition configmap :: dict where
  "configmap =
     [(''kind'', JStr ''ConfigMap''), (''apiVersion'', JStr ''v1''),
      (''metadata'', JDict [(''name'', JStr ''a''), (''namespace'', JStr ''ns'')]),
      (''data'', JDict [(''k'', JStr ''v'')])]"

definition fixed_resource ::
  "(ApiException + k8s_obj) \<Rightarrow> (ApiException + k8s_obj) \<Rightarrow> (ApiException + k8s_obj) \<Rightarrow> resource" where
  "fixed_resource listed got mutated =
     \<lparr> kind = ''ConfigMap'', group = [], apiversion = ''v1'',
       r_list = (\<lambda>namespace. listed),
       r_get = (\<lambda>name namespace. got),
       r_delete = (\<lambda>name namespace. mutated),
       r_create = (\<lambda>definition namespace. mutated),
       r_replace = (\<lambda>definition name namespace. mutated),
       r_update = (\<lambda>definition name namespace. mutated) \<rparr>"

definition module_with :: "dict \<Rightarrow> bool \<Rightarrow> raw_module" where
  "module_with ps check =
     \<lparr> module_kind = JNull, module_api_version = JNull, resource_definition = JNull, src = JNull,
       resource_definitions = None, params = ps, check_mode = check,
       remove_aliases = (\<lambda>p. p) \<rparr>"

definition configmap_old :: dict where
  "configmap_old =
     [(''kind'', JStr ''ConfigMap''), (''apiVersion'', JStr ''v1''),
      (''metadata'', JDict [(''name'', JStr ''a''), (''namespace'', JStr ''ns'')]),
      (''data'', JDict [(''k'', JStr ''old'')])]"

definition configmap_list :: dict where
  "configmap_list =
     [(''kind'', JStr ''ConfigMapList''), (''apiVersion'', JStr ''v1''),
      (''metadata'', JDict [(''namespace'', JStr ''ns'')])]"

definition deployment :: dict where
  "deployment =
     [(''kind'', JStr ''Deployment''), (''apiVersion'', JStr ''apps/v1''),
      (''metadata'', JDict [(''name'', JStr ''web''), (''namespace'', JStr ''ns'')])]"

definition deployments :: resource where
  "deployments =
     (fixed_resource (Inr (K8sObj [])) (Inr (K8sObj deployment)) (Inr (K8sObj deployment)))
       \<lparr> kind := ''Deployment'', group := ''apps'', apiversion := ''v1'' \<rparr>"

definition client_knowing :: "resource list \<Rightarrow> client" where
  "client_knowing known =
     \<lparr> search_resources = (\<lambda>predicate. case find predicate known of
                                           None \<Rightarrow> Inl (KeyError ''resource'')
                                         | Some rsc \<Rightarrow> Inr rsc) \<rparr>"

definition inline_params :: dict where
  "inline_params =
     [(''kind'', JStr ''Pod''), (''api_version'', JStr ''v1''),
      (''resource_definition'', JDict [(''kind'', JStr ''ConfigMap'')]),
      (''src'', JNull)]"

section \<open>The comparison of desired and existing state\<close>

lemma concat_map_Nil_iff: "(concat (map f xs) = []) = (\<forall>x\<in>set xs. f x = [])"
  by (induction xs) auto

lemma map_of_dict_set: "map_of (dict_set k v d) = (map_of d)(k \<mapsto> v)"
  by (induction d) (auto simp: fun_eq_iff)

lemma map_of_fold_dict_set:
  "map_of (fold (\<lambda>k shared. dict_set k (g k) shared) ks acc) k =
     (if k \<in> set ks then Some (g k) else map_of acc k)"
  by (induction ks arbitrary: acc) (auto simp: map_of_dict_set)

lemma map_of_shared_attrs:
  "map_of (shared_attrs D E) k = (if k \<in> fst ` set D then Some (dict_get E k) else None)"
  by (simp add: shared_attrs_def map_of_fold_dict_set dict_keys_def)

lemma diff_at_dict_empty:
  "(diff_at node (JDict first) (JDict second) = []) =
     ((\<forall>k\<in>set (dict_keys first). \<forall>v w. map_of first k = Some v \<longrightarrow> map_of second k = Some w \<longrightarrow> diff_at (node @ [Key k]) v w = [])
      \<and> (\<forall>k\<in>set (dict_keys second). map_of first k \<noteq> None)
      \<and> (\<forall>k\<in>set (dict_keys first). map_of second k \<noteq> None))"
proof -
  let ?I = "filter (\<lambda>k. map_of second k \<noteq> None) (dict_keys first)"
  let ?f = "\<lambda>k. case (map_of first k, map_of second k) of
                   (Some v, Some w) \<Rightarrow> diff_at (node @ [Key k]) v w | _ \<Rightarrow> []"
  have rec: "(concat (map ?f ?I) = []) =
      (\<forall>k\<in>set (dict_keys first). \<forall>v w. map_of first k = Some v \<longrightarrow> map_of second k = Some w
          \<longrightarrow> diff_at (node @ [Key k]) v w = [])"
    unfolding concat_map_Nil_iff
    by (auto simp del: diff_at.simps split: option.splits)
  have add: "(filter (\<lambda>k. map_of first k = None) (dict_keys second) = []) =
      (\<forall>k\<in>set (dict_keys second). map_of first k \<noteq> None)"
    by (simp add: filter_empty_conv)
  have del: "(filter (\<lambda>k. map_of second k = None) (dict_keys first) = []) =
      (\<forall>k\<in>set (dict_keys first). map_of second k \<noteq> None)"
    by (simp add: filter_empty_conv)
  have "(diff_at node (JDict first) (JDict second) = []) =
      (concat (map ?f ?I) = []
       \<and> filter (\<lambda>k. map_of first k = None) (dict_keys second) = []
       \<and> filter (\<lambda>k. map_of second k = None) (dict_keys first) = [])"
    by (simp only: diff_at.simps(1) Let_def append_is_Nil_conv) simp
  then show ?thesis
    unfolding rec add del .
qed

lemma diff_at_list_empty:
  "(diff_at node (JList first) (JList second) = []) =
     (length first = length second \<and>
      (\<forall>i<length first. diff_at (node @ [Index i]) (first ! i) (second ! i) = []))"
proof -
  let ?m = "min (length first) (length second)"
  let ?f = "\<lambda>i. if i < length first \<and> i < length second
                 then diff_at (node @ [Index i]) (first ! i) (second ! i) else []"
  have rec: "(concat (map ?f [0 ..< ?m]) = []) =
      (\<forall>i<?m. diff_at (node @ [Index i]) (first ! i) (second ! i) = [])"
    unfolding concat_map_Nil_iff
    by (auto simp del: diff_at.simps)
  have "(diff_at node (JList first) (JList second) = []) =
      (concat (map ?f [0 ..< ?m]) = []
       \<and> [?m ..< length second] = [] \<and> rev [?m ..< length first] = [])"
    by (simp only: diff_at.simps(2) Let_def append_is_Nil_conv) simp
  also have "\<dots> = (length first = length second \<and>
      (\<forall>i<length first. diff_at (node @ [Index i]) (first ! i) (second ! i) = []))"
    unfolding rec by (auto simp del: diff_at.simps)
  finally show ?thesis .
qed


lemma diff_at_empty_node:
  "(diff_at p a b = []) = (diff_at q a b = [])"
proof (induction p a b arbitrary: q rule: diff_at.induct)
  case (1 node first second)
  have step: "(diff_at (node @ [Key k]) v w = []) = (diff_at (q @ [Key k]) v w = [])"
    if k: "k \<in> set (dict_keys first)" and v: "map_of first k = Some v"
      and w: "map_of second k = Some w" for k v w
  proof -
    from k w have "k \<in> set (filter (\<lambda>k. map_of second k \<noteq> None) (dict_keys first))"
      by simp
    from "1.IH" [OF refl refl refl this refl v w]
    show ?thesis .
  qed
  show ?case
    unfolding diff_at_dict_empty using step by blast
next
  case (2 node first second)
  have step: "(diff_at (node @ [Index i]) (first ! i) (second ! i) = []) =
          (diff_at (q @ [Index i]) (first ! i) (second ! i) = [])"
    if "i < length first" "i < length second" for i
  proof -
    from that have "i \<in> set [0 ..< min (length first) (length second)]" by simp
    from "2.IH" [OF refl refl refl refl refl this] that
    show ?thesis by blast
  qed
  show ?case
    unfolding diff_at_list_empty using step by metis
qed (simp_all only: diff_at.simps, simp_all)

lemma dict_keys_shared_attrs: "set (dict_keys (shared_attrs D E)) = set (dict_keys D)"
proof -
  have "set (dict_keys d) = {k. map_of d k \<noteq> None}" for d :: dict
    by (auto simp: dict_keys_def map_of_eq_None_iff)
  then have "set (dict_keys (shared_attrs D E)) = {k. k \<in> fst ` set D}"
    by (simp add: map_of_shared_attrs)
  then show ?thesis
    by (simp add: dict_keys_def)
qed

lemma matches_iff:
  "matches D E = (\<forall>k\<in>set (dict_keys D). diff (dict_get D k) (dict_get E k) = [])"
proof -
  have keys: "k \<in> set (dict_keys D) \<longleftrightarrow> k \<in> fst ` set D" for k
    by (simp add: dict_keys_def)
  have some: "\<exists>v. map_of D k = Some v" if "k \<in> set (dict_keys D)" for k
    using that by (metis keys map_of_eq_None_iff not_None_eq)
  have "matches D E = (diff_at [] (JDict D) (JDict (shared_attrs D E)) = [])"
    by (simp add: matches_def diff_def)
  also have "\<dots> = (\<forall>k\<in>set (dict_keys D). \<forall>v. map_of D k = Some v \<longrightarrow>
                        diff_at ([] @ [Key k]) v (dict_get E k) = [])"
    unfolding diff_at_dict_empty dict_keys_shared_attrs map_of_shared_attrs
    using keys some by (auto simp del: diff_at.simps)
  also have "\<dots> = (\<forall>k\<in>set (dict_keys D). diff_at [] (dict_get D k) (dict_get E k) = [])"
  proof -
    have "(\<forall>v. map_of D k = Some v \<longrightarrow> diff_at ([] @ [Key k]) v (dict_get E k) = []) =
          (diff_at [] (dict_get D k) (dict_get E k) = [])" if "k \<in> set (dict_keys D)" for k
    proof -
      from some [OF that] obtain v where v: "map_of D k = Some v" by blast
      then have "dict_get D k = v" by (simp add: dict_get_def)
      with v diff_at_empty_node [of "[] @ [Key k]" v "dict_get E k" "[]"]
      show ?thesis by simp
    qed
    then show ?thesis by blast
  qed
  finally show ?thesis by (simp add: diff_def)
qed

lemma configmap_matches_itself: "matches configmap configmap"
  by (simp add: matches_iff configmap_def dict_keys_def dict_get_def diff_def)

lemma configmap_differs_from_old: "\<not> matches configmap configmap_old"
  by (simp add: matches_iff configmap_def configmap_old_def dict_keys_def dict_get_def diff_def)

section \<open>The path through perform_action\<close>

lemma map_of_dict_remove:
  "map_of (dict_remove k d) k' = (if k' = k then None else map_of d k')"
  by (induction d) (auto simp: dict_remove_def)

lemma dict_get_dict_remove: "k' \<noteq> k \<Longrightarrow> dict_get (dict_remove k d) k' = dict_get d k'"
  by (simp add: dict_get_def map_of_dict_remove)

lemma dict_get_default_dict_remove:
  "k' \<noteq> k \<Longrightarrow> dict_get_default (dict_remove k d) k' x = dict_get_default d k' x"
  by (simp add: dict_get_default_def map_of_dict_remove)

lemma perform_action_after_kind_test:
  assumes "metadata_get definition ''name'' = Inr n"
    and "metadata_get definition ''namespace'' = Inr ns"
    and "kind_endswith definition ''list'' = Inr False"
    and "name = py_or n (dict_get (params self) ''name'')"
    and "namespace = py_or ns (dict_get (params self) ''namespace'')"
    and "state = dict_get (params self) ''state''"
    and "force = dict_get_default (params self) ''force'' (JBool False)"
  shows "perform_action self rsc definition =
     (case r_get rsc name namespace of
        Inl exc \<Rightarrow>
          if status exc \<noteq> 404 then
            ([GetCall name namespace],
             FailJson (MsgStr (''Failed to retrieve requested object: '' @ body exc)) (Some (status exc)))
          else (GetCall name namespace # fst (reconcile self rsc definition state force name namespace None),
                snd (reconcile self rsc definition state force name namespace None))
      | Inr obj \<Rightarrow>
          (GetCall name namespace # fst (reconcile self rsc definition state force name namespace (Some obj)),
           snd (reconcile self rsc definition state force name namespace (Some obj))))"
  using assms
  by (simp add: perform_action_def Let_def dict_get_dict_remove dict_get_default_dict_remove
      split: sum.splits prod.splits)

lemma configmap_name: "metadata_get configmap ''name'' = Inr (JStr ''a'')"
  by (simp add: metadata_get_def configmap_def dict_get_default_def dict_get_def)

lemma configmap_namespace: "metadata_get configmap ''namespace'' = Inr (JStr ''ns'')"
  by (simp add: metadata_get_def configmap_def dict_get_default_def dict_get_def)

lemma configmap_kind: "kind_endswith configmap ''list'' = Inr False"
  by (simp add: kind_endswith_def configmap_def dict_index_def endswith_def)

lemma perform_action_configmap:
  "perform_action (module_with ps check) rsc configmap =
     (case r_get rsc (JStr ''a'') (JStr ''ns'') of
        Inl exc \<Rightarrow>
          if status exc \<noteq> 404 then
            ([GetCall (JStr ''a'') (JStr ''ns'')],
             FailJson (MsgStr (''Failed to retrieve requested object: '' @ body exc)) (Some (status exc)))
          else (GetCall (JStr ''a'') (JStr ''ns'')
                  # fst (reconcile (module_with ps check) rsc configmap
                          (dict_get (params (module_with ps check)) ''state'')
                          (dict_get_default (params (module_with ps check)) ''force'' (JBool False))
                          (JStr ''a'') (JStr ''ns'') None),
                snd (reconcile (module_with ps check) rsc configmap
                          (dict_get (params (module_with ps check)) ''state'')
                          (dict_get_default (params (module_with ps check)) ''force'' (JBool False))
                          (JStr ''a'') (JStr ''ns'') None))
      | Inr obj \<Rightarrow>
          (GetCall (JStr ''a'') (JStr ''ns'')
             # fst (reconcile (module_with ps check) rsc configmap
                          (dict_get (params (module_with ps check)) ''state'')
                          (dict_get_default (params (module_with ps check)) ''force'' (JBool False))
                          (JStr ''a'') (JStr ''ns'') (Some obj)),
           snd (reconcile (module_with ps check) rsc configmap
                          (dict_get (params (module_with ps check)) ''state'')
                          (dict_get_default (params (module_with ps check)) ''force'' (JBool False))
                          (JStr ''a'') (JStr ''ns'') (Some obj))))"
proof -
  have n: "JStr ''a'' = py_or (JStr ''a'') (dict_get (params (module_with ps check)) ''name'')"
    and ns: "JStr ''ns'' = py_or (JStr ''ns'') (dict_get (params (module_with ps check)) ''namespace'')"
    by (simp_all add: py_or_def)
  show ?thesis
    by (rule perform_action_after_kind_test
        [OF configmap_name configmap_namespace configmap_kind n ns refl refl])
qed

section \<open>Check mode\<close>

lemma reconcile_check_mode_calls:
  "check_mode self \<Longrightarrow> fst (reconcile self rsc definition state force name namespace existing) = []"
  by (simp add: reconcile_def delete_object_def create_object_def replace_object_def
      update_object_def read_local_def Let_def split: option.splits)

lemma list_objects_calls: "fst (list_objects rsc namespace) = [ListCall namespace]"
  by (simp add: list_objects_def split: sum.splits)

text \<open>In check mode no call of perform_action to the cluster is a mutating one.\<close>

lemma check_mode_no_mutating_call:
  assumes "check_mode self"
    and "c \<in> set (fst (perform_action self rsc definition))"
  shows "\<not> mutating c"
  using assms(2)
  by (auto simp add: perform_action_def Let_def case_prod_beta list_objects_calls
      reconcile_check_mode_calls [OF assms(1)] split: sum.splits bool.splits if_splits)

text \<open>
  In check mode the delete branch and the create branch issue no call after the get
  and report \<^verbatim>\<open>changed = True\<close>.
\<close>

lemma check_mode_delete_and_create:
  assumes "metadata_get definition ''name'' = Inr n"
    and "metadata_get definition ''namespace'' = Inr ns"
    and "kind_endswith definition ''list'' = Inr False"
    and "name = py_or n (dict_get (params self) ''name'')"
    and "namespace = py_or ns (dict_get (params self) ''namespace'')"
    and "check_mode self"
  shows "r_get rsc name namespace = Inr existing \<Longrightarrow>
           dict_get (params self) ''state'' = JStr ''absent'' \<Longrightarrow>
           perform_action self rsc definition = ([GetCall name namespace], ExitJson True [])"
    and "r_get rsc name namespace = Inl exc \<Longrightarrow> status exc = 404 \<Longrightarrow>
           dict_get (params self) ''state'' \<noteq> JStr ''absent'' \<Longrightarrow>
           perform_action self rsc definition = ([GetCall name namespace], ExitJson True [])"
  using assms(6)
  by (simp_all add: perform_action_after_kind_test [OF assms(1-5) refl refl]
      reconcile_def delete_object_def create_object_def)

text \<open>
  C1. In check mode with \<^verbatim>\<open>force\<close> set and the object present, perform_action
  issues the get and no mutating call, but it does not end with the
  \<^verbatim>\<open>changed = True\<close> that the same run reports without check mode: line 145
  reads \<^verbatim>\<open>k8s_obj\<close>, which only the skipped replace call assigns, and the run
  ends with an uncaught UnboundLocalError.
\<close>

theorem check_mode_force_replace_raises:
  "perform_action (module_with [(''force'', JBool True)] True)
     (fixed_resource (Inr (K8sObj [])) (Inr (K8sObj configmap)) (Inr (K8sObj configmap)))
     configmap
   = ([GetCall (JStr ''a'') (JStr ''ns'')], Raise (UnboundLocalError ''k8s_obj''))
   \<and> perform_action (module_with [(''force'', JBool True)] False)
     (fixed_resource (Inr (K8sObj [])) (Inr (K8sObj configmap)) (Inr (K8sObj configmap)))
     configmap
   = ([GetCall (JStr ''a'') (JStr ''ns''), ReplaceCall configmap (JStr ''a'') (JStr ''ns'')],
      ExitJson True configmap)"
proof -
  let ?r = "fixed_resource (Inr (K8sObj [])) (Inr (K8sObj configmap)) (Inr (K8sObj configmap))"
  have "perform_action (module_with [(''force'', JBool True)] True) ?r configmap
      = ([GetCall (JStr ''a'') (JStr ''ns'')], Raise (UnboundLocalError ''k8s_obj''))"
    by (subst perform_action_configmap) (simp add: fixed_resource_def module_with_def dict_get_def
        dict_get_default_def reconcile_def replace_object_def read_local_def)
  moreover have "perform_action (module_with [(''force'', JBool True)] False) ?r configmap
      = ([GetCall (JStr ''a'') (JStr ''ns''), ReplaceCall configmap (JStr ''a'') (JStr ''ns'')],
         ExitJson True configmap)"
    by (subst perform_action_configmap) (simp add: fixed_resource_def module_with_def dict_get_def
        dict_get_default_def reconcile_def replace_object_def read_local_def)
  ultimately show ?thesis by simp
qed

section \<open>Resolution of the endpoint\<close>

text \<open>For a core-API endpoint (empty group) the joined form is a slash and the version.\<close>

lemma exact_match_core_group:
  "group rsc = [] \<Longrightarrow>
     exact_match definition rsc =
       (JStr (kind rsc) = dict_get definition ''kind'' \<and>
        JStr (''/'' @ apiversion rsc) = dict_get definition ''apiVersion'')"
  by (simp add: exact_match_def)

text \<open>Whatever the client and the definition, line 90 raises TypeError.\<close>

lemma resolve_and_perform_TypeError: "resolve_and_perform cl self definition = ([], Raise TypeError)"
  by (simp add: resolve_and_perform_def call_bound_def exact_match_params_def)

text \<open>
  C2. The predicate \<^verbatim>\<open>exact_match\<close> holds of the endpoint whose kind and
  \<^verbatim>\<open>group/version\<close> equal the definition's \<^verbatim>\<open>kind\<close> and \<^verbatim>\<open>apiVersion\<close>, and
  a search with that predicate would select this endpoint; but execute_module never
  gets that far: \<^verbatim>\<open>self.exact_match(definition)\<close> passes two arguments to a function
  declared with one, so the run ends with an uncaught TypeError and no endpoint is
  selected.
\<close>

theorem execute_module_raises_TypeError:
  "exact_match deployment deployments
   \<and> search_resources (client_knowing [deployments]) (exact_match deployment) = Inr deployments
   \<and> execute_module ((module_with [] False) \<lparr> resource_definitions := Some [deployment] \<rparr>)
        (client_knowing [deployments])
     = ([], Raise TypeError)"
proof -
  have e: "exact_match deployment deployments"
    by (simp add: exact_match_def deployment_def deployments_def dict_get_def)
  then have s: "search_resources (client_knowing [deployments]) (exact_match deployment) = Inr deployments"
    by (simp add: client_knowing_def)
  have "execute_module ((module_with [] False) \<lparr> resource_definitions := Some [deployment] \<rparr>)
        (client_knowing [deployments]) = ([], Raise TypeError)"
    by (simp add: execute_module_def resolve_and_perform_def call_bound_def exact_match_params_def)
  with e s show ?thesis by simp
qed

section \<open>The list short-circuit\<close>

text \<open>
  A kind that ends with the lower-case suffix \<^verbatim>\<open>list\<close> takes the short-circuit:
  one list call, in the namespace of the module parameters.
\<close>

lemma lowercase_list_suffix_short_circuit:
  assumes "metadata_get definition ''name'' = Inr n"
    and "metadata_get definition ''namespace'' = Inr ns"
    and "map_of definition ''kind'' = Some (JStr k)"
    and "endswith k ''list''"
  shows "perform_action self rsc definition =
     list_objects rsc (dict_get (remove_aliases self
        (dict_remove ''force'' (dict_remove ''state'' (params self)))) ''namespace'')"
  using assms
  by (simp add: perform_action_def Let_def kind_endswith_def dict_index_def)

text \<open>
  C3. For the kind \<^verbatim>\<open>ConfigMapList\<close>, which ends with the suffix \<^verbatim>\<open>List\<close>,
  perform_action does not take the list short-circuit: line 104 tests for the
  lower-case suffix \<^verbatim>\<open>list\<close>. It issues a get and, the object being absent, a
  create, and reports \<^verbatim>\<open>changed = True\<close>; no list call is made.
\<close>

theorem list_kind_not_short_circuited:
  "endswith ''ConfigMapList'' ''List''
   \<and> perform_action (module_with [(''namespace'', JStr ''ns'')] False)
     (fixed_resource (Inr (K8sObj [(''items'', JList [])])) (Inl (ApiException 404 ''not found''))
        (Inr (K8sObj configmap_list)))
     configmap_list
   = ([GetCall JNull (JStr ''ns''), CreateCall configmap_list (JStr ''ns'')],
      ExitJson True configmap_list)"
  by (simp add: perform_action_def Let_def metadata_get_def kind_endswith_def configmap_list_def
      dict_get_default_def dict_get_def dict_index_def dict_remove_def endswith_def py_or_def
      module_with_def fixed_resource_def reconcile_def create_object_def)

section \<open>Matching\<close>

text \<open>
  C4. \<^verbatim>\<open>matches(D, E)\<close> is true iff for every top-level key of \<open>D\<close> the diff
  between \<open>D\<close>'s value and \<open>E\<close>'s value at that key (None when \<open>E\<close> lacks it) is
  empty; and an existing object \<open>E'\<close> that agrees with \<open>E\<close> on the top-level keys of
  \<open>D\<close> gets the same verdict, whatever its other keys are.
\<close>

theorem matches_top_level_keys:
  "(matches D E \<longleftrightarrow> (\<forall>k\<in>set (dict_keys D). diff (dict_get D k) (dict_get E k) = []))
   \<and> ((\<forall>k\<in>set (dict_keys D). dict_get E' k = dict_get E k) \<longrightarrow> matches D E' = matches D E)"
proof -
  have "matches D E' = matches D E" if "\<forall>k\<in>set (dict_keys D). dict_get E' k = dict_get E k"
    using that by (simp add: matches_iff)
  then show ?thesis
    using matches_iff [of D E] by blast
qed

text \<open>
  The ConfigMap matches itself, and still does when the existing object carries an
  additional top-level \<^verbatim>\<open>status\<close> key.
\<close>

theorem matches_top_level_keys_witness:
  "dict_keys configmap = [''kind'', ''apiVersion'', ''metadata'', ''data'']
   \<and> matches configmap configmap
   \<and> matches configmap ((''status'', JStr ''Active'') # configmap)"
proof -
  have k: "dict_keys configmap = [''kind'', ''apiVersion'', ''metadata'', ''data'']"
    by (simp add: configmap_def dict_keys_def)
  have h: "\<forall>k\<in>set (dict_keys configmap).
      dict_get ((''status'', JStr ''Active'') # configmap) k = dict_get configmap k"
    unfolding k by (simp add: dict_get_def)
  have d: "\<forall>k\<in>set (dict_keys configmap). diff (dict_get configmap k) (dict_get configmap k) = []"
    unfolding k by (simp add: configmap_def dict_keys_def dict_get_def diff_def)
  show ?thesis
    using k h d matches_top_level_keys [of configmap configmap "(''status'', JStr ''Active'') # configmap"]
    by blast
qed

section \<open>Failures of cluster calls\<close>

text \<open>
  C5. When the get of the existing object raises an ApiException whose status is not
  404, perform_action ends the run with fail_json: the message contains the response
  body, the error field is the status, and the get is the only call (no retry). When
  the status is 404 the run goes on as with no existing object: no failure is
  reported for the get, and the outcome is that of the absent or create branch.
\<close>


theorem get_failure_handling:
  assumes "metadata_get definition ''name'' = Inr n"
    and "metadata_get definition ''namespace'' = Inr ns"
    and "kind_endswith definition ''list'' = Inr False"
    and "name = py_or n (dict_get (params self) ''name'')"
    and "namespace = py_or ns (dict_get (params self) ''namespace'')"
    and "r_get rsc name namespace = Inl exc"
  shows "perform_action self rsc definition =
     (if status exc \<noteq> 404 then
        ([GetCall name namespace],
         FailJson (MsgStr (''Failed to retrieve requested object: '' @ body exc)) (Some (status exc)))
      else if dict_get (params self) ''state'' = JStr ''absent'' then
        ([GetCall name namespace], ExitJson False [])
      else if check_mode self then
        ([GetCall name namespace], ExitJson True [])
      else
        (case r_create rsc definition namespace of
           Inl e \<Rightarrow> ([GetCall name namespace, CreateCall definition namespace], Raise (Uncaught e))
         | Inr obj \<Rightarrow> ([GetCall name namespace, CreateCall definition namespace],
                       ExitJson True (to_dict obj))))"
  using assms(6)
  by (simp add: perform_action_after_kind_test [OF assms(1-5) refl refl]
      reconcile_def create_object_def split: sum.splits)

text \<open>A get that fails with status 500 ends the run; one that fails with 404 leads to a create.\<close>

theorem get_failure_handling_witness:
  "perform_action (module_with [] False)
     (fixed_resource (Inl (ApiException 500 ''boom'')) (Inl (ApiException 500 ''boom''))
        (Inr (K8sObj configmap))) configmap
   = ([GetCall (JStr ''a'') (JStr ''ns'')],
      FailJson (MsgStr ''Failed to retrieve requested object: boom'') (Some 500))
   \<and> perform_action (module_with [] False)
     (fixed_resource (Inl (ApiException 500 ''boom'')) (Inl (ApiException 404 ''not found''))
        (Inr (K8sObj configmap))) configmap
   = ([GetCall (JStr ''a'') (JStr ''ns''), CreateCall configmap (JStr ''ns'')],
      ExitJson True configmap)"
proof -
  let ?m = "module_with [] False"
  have n: "JStr ''a'' = py_or (JStr ''a'') (dict_get (params ?m) ''name'')"
    and ns: "JStr ''ns'' = py_or (JStr ''ns'') (dict_get (params ?m) ''namespace'')"
    by (simp_all add: py_or_def)
  let ?r1 = "fixed_resource (Inl (ApiException 500 ''boom'')) (Inl (ApiException 500 ''boom''))
        (Inr (K8sObj configmap))"
  let ?r2 = "fixed_resource (Inl (ApiException 500 ''boom'')) (Inl (ApiException 404 ''not found''))
        (Inr (K8sObj configmap))"
  have g1: "r_get ?r1 (JStr ''a'') (JStr ''ns'') = Inl (ApiException 500 ''boom'')"
    by (simp add: fixed_resource_def)
  have g2: "r_get ?r2 (JStr ''a'') (JStr ''ns'') = Inl (ApiException 404 ''not found'')"
    by (simp add: fixed_resource_def)
  show ?thesis
    using get_failure_handling [OF configmap_name configmap_namespace configmap_kind n ns g1]
      get_failure_handling [OF configmap_name configmap_namespace configmap_kind n ns g2]
    by (simp add: module_with_def fixed_resource_def dict_get_def)
qed

text \<open>
  A failing delete is reported with body and status, a failing update with the body
  only.
\<close>

lemma delete_and_update_failures:
  assumes "metadata_get definition ''name'' = Inr n"
    and "metadata_get definition ''namespace'' = Inr ns"
    and "kind_endswith definition ''list'' = Inr False"
    and "name = py_or n (dict_get (params self) ''name'')"
    and "namespace = py_or ns (dict_get (params self) ''namespace'')"
    and "r_get rsc name namespace = Inr existing"
    and "\<not> check_mode self"
  shows "dict_get (params self) ''state'' = JStr ''absent'' \<Longrightarrow>
           r_delete rsc name namespace = Inl exc \<Longrightarrow>
           perform_action self rsc definition =
             ([GetCall name namespace, DeleteCall name namespace],
              FailJson (MsgStr (''Failed to delete object: '' @ body exc)) (Some (status exc)))"
    and "dict_get (params self) ''state'' \<noteq> JStr ''absent'' \<Longrightarrow>
           \<not> truthy (dict_get_default (params self) ''force'' (JBool False)) \<Longrightarrow>
           \<not> matches definition (to_dict existing) \<Longrightarrow>
           r_update rsc definition name namespace = Inl exc \<Longrightarrow>
           perform_action self rsc definition =
             ([GetCall name namespace, UpdateCall definition name namespace],
              FailJson (MsgStr (''Failed to patch object: '' @ body exc)) None)"
  using assms(6,7)
  by (simp_all add: perform_action_after_kind_test [OF assms(1-5) refl refl]
      reconcile_def delete_object_def update_object_def)

text \<open>
  C6. A create that raises ApiException is not reported through fail_json: the call at
  line 133 has no handler, unlike delete, replace and update, so the exception leaves
  perform_action uncaught and no failure message is built from the response body.
\<close>

theorem create_failure_uncaught:
  "perform_action (module_with [] False)
     (fixed_resource (Inr (K8sObj [])) (Inl (ApiException 404 ''not found''))
        (Inl (ApiException 409 ''conflict'')))
     configmap
   = ([GetCall (JStr ''a'') (JStr ''ns''), CreateCall configmap (JStr ''ns'')],
      Raise (Uncaught (ApiException 409 ''conflict'')))"
  by (subst perform_action_configmap) (simp add: fixed_resource_def module_with_def dict_get_def
      dict_get_default_def reconcile_def create_object_def)

section \<open>Configuration errors\<close>

text \<open>
  C7. With an inline definition (and no source file), \<^verbatim>\<open>api_version\<close> and
  \<^verbatim>\<open>kind\<close> are taken from the definition when its body is non-empty, whatever the
  separate parameters say, and from the parameters otherwise. If the resulting
  \<^verbatim>\<open>api_version\<close> is empty the module fails with the message that names
  \<^verbatim>\<open>api_version\<close>; else if the resulting \<^verbatim>\<open>kind\<close> is empty it fails with the
  message that names \<^verbatim>\<open>kind\<close>; else the definition becomes the only one to
  process. In every case no call to the cluster has been made.
\<close>

theorem init_inline_definition:
  assumes "map_of params0 ''kind'' = Some kind0"
    and "map_of params0 ''api_version'' = Some api_version0"
    and "map_of params0 ''resource_definition'' = Some (JDict inline)"
    and "map_of params0 ''src'' = Some source"
    and "\<not> truthy source"
    and "api_version = (if inline \<noteq> [] then dict_get inline ''apiVersion'' else api_version0)"
    and "knd = (if inline \<noteq> [] then dict_get inline ''kind'' else kind0)"
  shows "init params0 check aliases load =
     (if \<not> truthy api_version then
        ([], FailJson (MsgTuple
           [''Error: no api_version specified. Use the api_version parameter, or provide it as part of a '',
            ''resource_definition.'']) None)
      else if \<not> truthy knd then
        ([], FailJson (MsgStr
           ''Error: no kind specified. Use the kind parameter, or provide it as part of a resource_definition'') None)
      else
        ([], Return \<lparr> module_kind = knd, module_api_version = api_version,
                       resource_definition = JDict inline, src = source,
                       resource_definitions = Some [inline],
                       params = dict_remove ''src'' (dict_remove ''resource_definition''
                                  (dict_remove ''api_version'' (dict_remove ''kind'' params0))),
                       check_mode = check, remove_aliases = aliases \<rparr>))"
proof -
  have k: "dict_index params0 ''kind'' = Inr kind0"
    using assms(1) by (simp add: dict_index_def)
  have a: "dict_index (dict_remove ''kind'' params0) ''api_version'' = Inr api_version0"
    using assms(2) by (simp add: dict_index_def map_of_dict_remove)
  have r: "dict_index (dict_remove ''api_version'' (dict_remove ''kind'' params0))
             ''resource_definition'' = Inr (JDict inline)"
    using assms(3) by (simp add: dict_index_def map_of_dict_remove)
  have s: "dict_index (dict_remove ''resource_definition''
             (dict_remove ''api_version'' (dict_remove ''kind'' params0))) ''src'' = Inr source"
    using assms(4) by (simp add: dict_index_def map_of_dict_remove)
  show ?thesis
    using assms(5)
    by (simp add: init_def k a r s Let_def assms(6,7))
qed

text \<open>
  An inline definition without \<^verbatim>\<open>apiVersion\<close> fails although the
  \<^verbatim>\<open>api_version\<close> parameter is given.
\<close>

theorem init_inline_definition_witness:
  "init inline_params False (\<lambda>p. p) (\<lambda>path. Return [])
   = ([], FailJson (MsgTuple
           [''Error: no api_version specified. Use the api_version parameter, or provide it as part of a '',
            ''resource_definition.'']) None)"
proof -
  have 1: "map_of inline_params ''kind'' = Some (JStr ''Pod'')"
    and 2: "map_of inline_params ''api_version'' = Some (JStr ''v1'')"
    and 3: "map_of inline_params ''resource_definition'' = Some (JDict [(''kind'', JStr ''ConfigMap'')])"
    and 4: "map_of inline_params ''src'' = Some JNull"
    by (simp_all add: inline_params_def)
  have 5: "\<not> truthy JNull" by simp
  have 6: "JNull = (if [(''kind'', JStr ''ConfigMap'')] \<noteq> []
                    then dict_get [(''kind'', JStr ''ConfigMap'')] ''apiVersion'' else JStr ''v1'')"
    by (simp add: dict_get_def)
  have 7: "JStr ''ConfigMap'' = (if [(''kind'', JStr ''ConfigMap'')] \<noteq> []
                    then dict_get [(''kind'', JStr ''ConfigMap'')] ''kind'' else JStr ''Pod'')"
    by (simp add: dict_get_def)
  show ?thesis
    using init_inline_definition [OF 1 2 3 4 5 6 7, of False "\<lambda>p. p" "\<lambda>path. Return []"]
    by simp
qed

section \<open>Forced replace\<close>

text \<open>
  With a state other than \<^verbatim>\<open>absent\<close>, the object present, \<^verbatim>\<open>force\<close> set and
  check mode off, perform_action calls replace whatever the diff between definition
  and existing object is; when the replace succeeds the run ends with
  \<^verbatim>\<open>changed = True\<close> and the replaced object as result, and when it raises the run
  fails with the response body and the status.
\<close>

lemma force_replace_unconditional:
  assumes "metadata_get definition ''name'' = Inr n"
    and "metadata_get definition ''namespace'' = Inr ns"
    and "kind_endswith definition ''list'' = Inr False"
    and "name = py_or n (dict_get (params self) ''name'')"
    and "namespace = py_or ns (dict_get (params self) ''namespace'')"
    and "r_get rsc name namespace = Inr existing"
    and "dict_get (params self) ''state'' \<noteq> JStr ''absent''"
    and "truthy (dict_get_default (params self) ''force'' (JBool False))"
    and "\<not> check_mode self"
  shows "perform_action self rsc definition =
     (case r_replace rsc definition name namespace of
        Inl exc \<Rightarrow>
          ([GetCall name namespace, ReplaceCall definition name namespace],
           FailJson (MsgStr (''Failed to replace object: '' @ body exc)) (Some (status exc)))
      | Inr obj \<Rightarrow>
          ([GetCall name namespace, ReplaceCall definition name namespace],
           ExitJson True (to_dict obj)))"
  using assms(6-9)
  by (simp add: perform_action_after_kind_test [OF assms(1-5) refl refl]
      reconcile_def replace_object_def read_local_def split: sum.splits)

text \<open>The existing object equals the definition, and is replaced all the same.\<close>

lemma force_replace_matching_object:
  "matches configmap configmap
   \<and> perform_action (module_with [(''force'', JBool True)] False)
     (fixed_resource (Inr (K8sObj [])) (Inr (K8sObj configmap)) (Inr (K8sObj configmap)))
     configmap
   = ([GetCall (JStr ''a'') (JStr ''ns''), ReplaceCall configmap (JStr ''a'') (JStr ''ns'')],
      ExitJson True configmap)"
proof -
  let ?m = "module_with [(''force'', JBool True)] False"
  let ?r = "fixed_resource (Inr (K8sObj [])) (Inr (K8sObj configmap)) (Inr (K8sObj configmap))"
  have n: "JStr ''a'' = py_or (JStr ''a'') (dict_get (params ?m) ''name'')"
    and ns: "JStr ''ns'' = py_or (JStr ''ns'') (dict_get (params ?m) ''namespace'')"
    by (simp_all add: py_or_def)
  have g: "r_get ?r (JStr ''a'') (JStr ''ns'') = Inr (K8sObj configmap)"
    by (simp add: fixed_resource_def)
  have st: "dict_get (params ?m) ''state'' \<noteq> JStr ''absent''"
    by (simp add: module_with_def dict_get_def)
  have f: "truthy (dict_get_default (params ?m) ''force'' (JBool False))"
    by (simp add: module_with_def dict_get_default_def)
  have c: "\<not> check_mode ?m"
    by (simp add: module_with_def)
  show ?thesis
    using force_replace_unconditional
        [OF configmap_name configmap_namespace configmap_kind n ns g st f c]
      configmap_matches_itself
    by (simp add: fixed_resource_def)
qed

text \<open>
  C8. With the state \<^verbatim>\<open>present\<close>, the object present and \<^verbatim>\<open>force\<close> set, the run
  without check mode calls replace although the existing object equals the
  definition, and ends with \<^verbatim>\<open>changed = True\<close>. The same run in check mode skips
  the replace and does not end with \<^verbatim>\<open>changed = True\<close>: line 145 reads
  \<^verbatim>\<open>k8s_obj\<close>, which the skipped call would have assigned, and the run ends with
  an uncaught UnboundLocalError and no report.
\<close>

theorem force_replace_check_mode_no_report:
  "matches configmap configmap
   \<and> perform_action (module_with [(''state'', JStr ''present''), (''force'', JBool True)] False)
     (fixed_resource (Inr (K8sObj [])) (Inr (K8sObj configmap)) (Inr (K8sObj configmap_old)))
     configmap
   = ([GetCall (JStr ''a'') (JStr ''ns''), ReplaceCall configmap (JStr ''a'') (JStr ''ns'')],
      ExitJson True configmap_old)
   \<and> perform_action (module_with [(''state'', JStr ''present''), (''force'', JBool True)] True)
     (fixed_resource (Inr (K8sObj [])) (Inr (K8sObj configmap)) (Inr (K8sObj configmap_old)))
     configmap
   = ([GetCall (JStr ''a'') (JStr ''ns'')], Raise (UnboundLocalError ''k8s_obj''))"
proof -
  let ?ps = "[(''state'', JStr ''present''), (''force'', JBool True)]"
  let ?r = "fixed_resource (Inr (K8sObj [])) (Inr (K8sObj configmap)) (Inr (K8sObj configmap_old))"
  have "perform_action (module_with ?ps False) ?r configmap
      = ([GetCall (JStr ''a'') (JStr ''ns''), ReplaceCall configmap (JStr ''a'') (JStr ''ns'')],
         ExitJson True configmap_old)"
    by (subst perform_action_configmap) (simp add: fixed_resource_def module_with_def dict_get_def
        dict_get_default_def reconcile_def replace_object_def read_local_def)
  moreover have "perform_action (module_with ?ps True) ?r configmap
      = ([GetCall (JStr ''a'') (JStr ''ns'')], Raise (UnboundLocalError ''k8s_obj''))"
    by (subst perform_action_configmap) (simp add: fixed_resource_def module_with_def dict_get_def
        dict_get_default_def reconcile_def replace_object_def read_local_def)
  ultimately show ?thesis
    using configmap_matches_itself by simp
qed

section \<open>One outcome per run\<close>

lemma list_objects_no_return: "snd (list_objects rsc namespace) \<noteq> Return x"
  by (simp add: list_objects_def split: sum.splits)

lemma delete_object_no_return: "snd (delete_object self rsc name namespace) \<noteq> Return x"
  by (simp add: delete_object_def split: sum.splits)

lemma create_object_no_return: "snd (create_object self rsc definition namespace) \<noteq> Return x"
  by (simp add: create_object_def split: sum.splits)

lemma replace_object_no_return: "snd (replace_object self rsc definition name namespace) \<noteq> Return x"
  by (simp add: replace_object_def read_local_def split: sum.splits)

lemma update_object_no_return:
  "snd (update_object self rsc definition name namespace existing) \<noteq> Return x"
  by (simp add: update_object_def read_local_def Let_def split: sum.splits)

lemma reconcile_no_return:
  "snd (reconcile self rsc definition state force name namespace existing) \<noteq> Return x"
  by (simp add: reconcile_def delete_object_no_return create_object_no_return
      replace_object_no_return update_object_no_return split: option.splits)

lemma perform_action_no_return: "snd (perform_action self rsc definition) \<noteq> Return x"
  by (simp add: perform_action_def Let_def case_prod_beta list_objects_no_return
      reconcile_no_return split: sum.splits bool.splits)

lemma for_definitions_first_only:
  assumes "\<And>x. snd (loop_body self definition) \<noteq> Return x"
  shows "for_definitions loop_body self (definition # rest) = loop_body self definition"
proof (cases "loop_body self definition")
  case (Pair calls r)
  show ?thesis
  proof (cases r)
    case (Return x)
    with Pair assms [of x] show ?thesis by simp
  qed (simp_all add: Pair)
qed

text \<open>
  The loop body of execute_module is a resolution step, which may raise, followed by
  perform_action on the resolved endpoint.
\<close>

lemma resolve_and_perform_resolver:
  "resolve_and_perform cl s d =
     (case (case call_bound exact_match_params 1 (exact_match d) of
              Inl e \<Rightarrow> Inl e
            | Inr predicate \<Rightarrow> search_resources cl predicate) of
        Inl e \<Rightarrow> ([], Raise e)
      | Inr rsc \<Rightarrow> perform_action s rsc d)"
  by (simp add: resolve_and_perform_def split: sum.splits)

lemma resolved_action_no_return:
  "snd (case resolve d of Inl e \<Rightarrow> ([], Raise e) | Inr rsc \<Rightarrow> perform_action s rsc d)
     \<noteq> Return x"
  by (simp add: perform_action_no_return split: sum.splits)

text \<open>
  Whatever the resolution step does, execute_module on a non-empty list of definitions
  does what its loop body does on the first one.
\<close>

lemma execute_module_first_only:
  "execute_module (self \<lparr> resource_definitions := Some (definition # rest) \<rparr>) cl
     = resolve_and_perform cl (self \<lparr> resource_definitions := Some (definition # rest) \<rparr>) definition"
proof -
  have "\<And>x. snd (resolve_and_perform cl
            (self \<lparr> resource_definitions := Some (definition # rest) \<rparr>) definition) \<noteq> Return x"
    unfolding resolve_and_perform_resolver by (rule resolved_action_no_return)
  from for_definitions_first_only [of "resolve_and_perform cl", OF this]
  show ?thesis by (simp add: execute_module_def)
qed



section \<open>The unassigned local variable\<close>

text \<open>
  C10. In check mode, when the state is not \<^verbatim>\<open>absent\<close>, the object exists and
  either \<^verbatim>\<open>force\<close> is set (replace branch) or the definition does not match the
  existing object (update branch), perform_action issues only the get and then reads
  \<^verbatim>\<open>k8s_obj\<close>, which no executed statement has assigned: the run ends with an
  uncaught UnboundLocalError instead of a report.
\<close>

theorem check_mode_reads_unassigned_k8s_obj:
  assumes "metadata_get definition ''name'' = Inr n"
    and "metadata_get definition ''namespace'' = Inr ns"
    and "kind_endswith definition ''list'' = Inr False"
    and "name = py_or n (dict_get (params self) ''name'')"
    and "namespace = py_or ns (dict_get (params self) ''namespace'')"
    and "r_get rsc name namespace = Inr existing"
    and "dict_get (params self) ''state'' \<noteq> JStr ''absent''"
    and "check_mode self"
    and "truthy (dict_get_default (params self) ''force'' (JBool False))
         \<or> \<not> matches definition (to_dict existing)"
  shows "perform_action self rsc definition =
     ([GetCall name namespace], Raise (UnboundLocalError ''k8s_obj''))"
  using assms(6-9)
  by (auto simp add: perform_action_after_kind_test [OF assms(1-5) refl refl]
      reconcile_def replace_object_def update_object_def read_local_def Let_def)

text \<open>The update branch in check mode: the existing ConfigMap has other data.\<close>

theorem check_mode_reads_unassigned_k8s_obj_witness:
  "perform_action (module_with [] True)
     (fixed_resource (Inr (K8sObj [])) (Inr (K8sObj configmap_old)) (Inr (K8sObj configmap)))
     configmap
   = ([GetCall (JStr ''a'') (JStr ''ns'')], Raise (UnboundLocalError ''k8s_obj''))"
proof -
  let ?m = "module_with [] True"
  let ?r = "fixed_resource (Inr (K8sObj [])) (Inr (K8sObj configmap_old)) (Inr (K8sObj configmap))"
  have n: "JStr ''a'' = py_or (JStr ''a'') (dict_get (params ?m) ''name'')"
    and ns: "JStr ''ns'' = py_or (JStr ''ns'') (dict_get (params ?m) ''namespace'')"
    by (simp_all add: py_or_def)
  have g: "r_get ?r (JStr ''a'') (JStr ''ns'') = Inr (K8sObj configmap_old)"
    by (simp add: fixed_resource_def)
  have st: "dict_get (params ?m) ''state'' \<noteq> JStr ''absent''"
    by (simp add: module_with_def dict_get_def)
  have c: "check_mode ?m"
    by (simp add: module_with_def)
  have d: "truthy (dict_get_default (params ?m) ''force'' (JBool False))
           \<or> \<not> matches configmap (to_dict (K8sObj configmap_old))"
    using configmap_differs_from_old by simp
  show ?thesis
    by (rule check_mode_reads_unassigned_k8s_obj
        [OF configmap_name configmap_namespace configmap_kind n ns g st c d])
qed

end
